theory Spec2Isabelle
  imports Main "HOL-Library.Word" "HOL-Library.Sublist"
begin

section \<open>The browser and the HTTP client wrapper (services/api.js)\<close>

text \<open>
  The axios-based client exists in two revisions with the same interceptors and the same
  \<open>authService.logout\<close>: \<open>src/services/api.js\<close> (the minimal revision, most services
  commented out) and the copy that \<open>migrate-to-vite.sh\<close> writes (all services).

  What the code reads and writes outside its own variables is collected in one record:
  the browser's \<open>localStorage\<close>, \<open>window.location.href\<close>, and the requests handed to
  the network so far, oldest first.
\<close>

record request =
  req_method :: string
  req_url :: string
  req_authorization :: "string option"

record world =
  localStorage :: "string \<rightharpoonup> string"
  location_href :: string
  sent :: "request list"

text \<open>
  An HTTP response as the hooks read it: \<open>status\<close>, \<open>data\<close> decoded as the payload the
  caller expects, and \<open>data_message\<close> for the expression \<open>response.data?.message\<close>
  (\<open>None\<close> when the body or the field is missing). The network either delivers a
  response or fails without one. An axios error carries the response when there is one
  (\<open>error.response\<close>).
\<close>

record 'a response =
  status :: int
  data :: 'a
  data_message :: "string option"

datatype 'a transport = No_response | Received "'a response"

record 'a axios_error =
  error_response :: "'a response option"

text \<open>
  axios settles a request with its default \<open>validateStatus\<close> (the client is created
  without one): a status from 200 to 299 resolves, any other status rejects with an error
  that holds the response, and a request without a response rejects with an error that
  holds none.
\<close>

definition settle :: "'a transport \<Rightarrow> 'a axios_error + 'a response" where
  "settle t =
     (case t of
        No_response \<Rightarrow> Inl \<lparr>error_response = None\<rparr>
      | Received r \<Rightarrow>
          if 200 \<le> status r \<and> status r < 300 then Inr r
          else Inl \<lparr>error_response = Some r\<rparr>)"

text \<open>
  The request interceptor: \<open>if (token) config.headers.Authorization = `Bearer ${token}`\<close>.
  A missing item and the empty string are both falsy.
\<close>

definition request_fulfilled :: "world \<Rightarrow> request \<Rightarrow> request" where
  "request_fulfilled w config =
     (case localStorage w ''authToken'' of
        None \<Rightarrow> config
      | Some token \<Rightarrow>
          if token = [] then config
          else config\<lparr>req_authorization := Some (''Bearer '' @ token)\<rparr>)"

text \<open>
  The response interceptor: \<open>(response) => response\<close> on success; on an error, the test
  \<open>error.response?.status === 401\<close>, then \<open>Promise.reject(error)\<close> in every case.
\<close>

definition response_fulfilled :: "'a response \<Rightarrow> 'a response" where
  "response_fulfilled response = response"

definition response_rejected :: "world \<Rightarrow> 'a axios_error \<Rightarrow> world \<times> ('a axios_error + 'a response)" where
  "response_rejected w error =
     ((if map_option status (error_response error) = Some 401
       then w\<lparr>localStorage := (localStorage w)(''authToken'' := None),
               location_href := ''/login''\<rparr>
       else w),
      Inl error)"

text \<open>
  One call through the client (\<open>api.get\<close>, \<open>api.post\<close>, \<open>api.put\<close>, \<open>api.delete\<close>): the
  request interceptor, the network, the response interceptor. The network's answer is
  the parameter \<open>t\<close>.
\<close>

definition api_request :: "world \<Rightarrow> string \<Rightarrow> string \<Rightarrow> 'a transport \<Rightarrow> world \<times> ('a axios_error + 'a response)" where
  "api_request w m u t =
     (let config = request_fulfilled w \<lparr>req_method = m, req_url = u, req_authorization = None\<rparr>;
          w1 = w\<lparr>sent := sent w @ [config]\<rparr>
      in case settle t of
           Inr response \<Rightarrow> (w1, Inr (response_fulfilled response))
         | Inl error \<Rightarrow> response_rejected w1 error)"

text \<open>\<open>authService.logout\<close>, the same text in both revisions.\<close>

definition authService_logout :: "world \<Rightarrow> world \<times> (unit axios_error + unit)" where
  "authService_logout w =
     (w\<lparr>localStorage := (localStorage w)(''authToken'' := None)\<rparr>, Inr ())"


section \<open>The services and the hooks (written by migrate-to-vite.sh)\<close>

text \<open>
  A ticket as the pages read it. Identifiers come from JSON, as numbers or as strings; the
  hooks compare them with \<open>===\<close>, which on such values is equality of the tagged value (a
  number never equals a string). Non-integer numbers are left out, and a number
  identifier is meant to be an integer that a double holds exactly.
\<close>

datatype ident = Num int | Str string

record ticket =
  ticket_id :: ident
  title :: string
  description :: string
  priority :: string
  ticket_status :: string

text \<open>
  The template literal \<open>`${id}`\<close> prints a string as it is and a number as
  \<open>Number.prototype.toString\<close> does. A number identifier is an integer that a double holds
  exactly; any other integer is first rounded to the nearest double, ties to the even
  mantissa, as \<open>JSON.parse\<close> does, and from \<open>2 ^ 1024\<close> on the value is \<open>Infinity\<close>. Up to
  53 bits every integer is its own double and is printed digit by digit. Above, the
  digits printed are the fewest that still identify the double (of two candidates the
  closer one, the even one when they are equally close); they are followed by zeros while
  the number is below \<open>10 ^ 21\<close>, and written in exponent form from there on.
\<close>

fun decimal :: "nat \<Rightarrow> string" where
  "decimal n =
     (if n < 10 then [''0123456789'' ! n]
      else decimal (n div 10) @ [''0123456789'' ! (n mod 10)])"

declare decimal.simps [simp del]

fun bit_length :: "nat \<Rightarrow> nat" where
  "bit_length n = (if n = 0 then 0 else Suc (bit_length (n div 2)))"

declare bit_length.simps [simp del]

definition to_double :: "nat \<Rightarrow> nat" where
  "to_double x =
     (if bit_length x \<le> 53 then x
      else let q = bit_length x - 53;
               m = x div 2 ^ q;
               r = x mod 2 ^ q;
               half = 2 ^ (q - 1)
           in (if half < r \<or> (r = half \<and> odd m) then m + 1 else m) * 2 ^ q)"

text \<open>
  \<open>digits_at x e\<close>: the digit string \<open>s\<close>, if any, for which \<open>s * 10 ^ e\<close> is read back as
  the double \<open>x\<close>. \<open>search x D k\<close> tries \<open>k\<close>, \<open>k + 1\<close>, ... digits in turn, up to the \<open>D\<close>
  digits of \<open>x\<close> itself. \<open>shortest x\<close>: the shortest such \<open>s\<close> together with the number \<open>n\<close>
  of digits before the decimal point.
\<close>

definition digits_at :: "nat \<Rightarrow> nat \<Rightarrow> nat option" where
  "digits_at x e =
     (let lo = x div 10 ^ e;
          below = (to_double (lo * 10 ^ e) = x);
          above = (to_double ((lo + 1) * 10 ^ e) = x)
      in if below \<and> above then
           (let dl = x - lo * 10 ^ e; du = (lo + 1) * 10 ^ e - x
            in if dl < du then Some lo
               else if du < dl then Some (lo + 1)
               else if even lo then Some lo else Some (lo + 1))
         else if below then Some lo
         else if above then Some (lo + 1)
         else None)"

function search :: "nat \<Rightarrow> nat \<Rightarrow> nat \<Rightarrow> nat" where
  "search x D k =
     (if D < k then x
      else case digits_at x (D - k) of
             Some s \<Rightarrow> s
           | None \<Rightarrow> search x D (Suc k))"
  by pat_completeness auto
termination
  by (relation "measure (\<lambda>(x, D, k). Suc D - k)") auto

declare search.simps [simp del]

definition shortest :: "nat \<Rightarrow> nat \<times> nat" where
  "shortest x =
     (let D = length (decimal x)
      in if to_double (10 ^ D) = x then (1, D + 1) else (search x D 1, D))"

definition Number_toString :: "nat \<Rightarrow> string" where
  "Number_toString x =
     (if bit_length x \<le> 53 then decimal x
      else if 2 ^ 1024 \<le> to_double x then ''Infinity''
      else case shortest (to_double x) of
             (s, n) \<Rightarrow>
               (let ds = decimal s; k = length ds
                in if n \<le> 21 then ds @ replicate (n - k) (CHR ''0'')
                   else case ds of
                          [] \<Rightarrow> []
                        | [c] \<Rightarrow> c # ''e+'' @ decimal (n - 1)
                        | c # cs \<Rightarrow> c # CHR ''.'' # cs @ ''e+'' @ decimal (n - 1)))"

definition to_string :: "ident \<Rightarrow> string" where
  "to_string i =
     (case i of
        Str s \<Rightarrow> s
      | Num n \<Rightarrow>
          if n < 0 then CHR ''-'' # Number_toString (nat (- n)) else Number_toString (nat n))"

text \<open>
  The service functions; each is one call through the client. The request body
  (\<open>ticketData\<close>, \<open>credentials\<close>) goes to the server as it is and is not recorded.
\<close>

definition ticketService_getAllTickets :: "world \<Rightarrow> 'a transport \<Rightarrow> world \<times> ('a axios_error + 'a response)" where
  "ticketService_getAllTickets w t = api_request w ''GET'' ''/api/tickets'' t"

definition ticketService_createTicket :: "world \<Rightarrow> 'a transport \<Rightarrow> world \<times> ('a axios_error + 'a response)" where
  "ticketService_createTicket w t = api_request w ''POST'' ''/api/tickets'' t"

definition ticketService_updateTicket :: "world \<Rightarrow> ident \<Rightarrow> 'a transport \<Rightarrow> world \<times> ('a axios_error + 'a response)" where
  "ticketService_updateTicket w i t = api_request w ''PUT'' (''/api/tickets/'' @ to_string i) t"

definition ticketService_deleteTicket :: "world \<Rightarrow> ident \<Rightarrow> 'a transport \<Rightarrow> world \<times> ('a axios_error + 'a response)" where
  "ticketService_deleteTicket w i t = api_request w ''DELETE'' (''/api/tickets/'' @ to_string i) t"

definition authService_login :: "world \<Rightarrow> 'a transport \<Rightarrow> world \<times> ('a axios_error + 'a response)" where
  "authService_login w t = api_request w ''POST'' ''/api/auth/login'' t"

definition healthService_checkBackend :: "world \<Rightarrow> 'a transport \<Rightarrow> world \<times> ('a axios_error + 'a response)" where
  "healthService_checkBackend w t = api_request w ''GET'' ''/health'' t"

definition healthService_checkDatabase :: "world \<Rightarrow> 'a transport \<Rightarrow> world \<times> ('a axios_error + 'a response)" where
  "healthService_checkDatabase w t = api_request w ''GET'' ''/api/health/db'' t"

text \<open>
  The expression \<open>err.response?.data?.message || fallback\<close> of every catch block: the
  fallback replaces a missing message and an empty one.
\<close>

definition error_message :: "'a axios_error \<Rightarrow> string option" where
  "error_message err =
     (case error_response err of None \<Rightarrow> None | Some r \<Rightarrow> data_message r)"

definition or_default :: "string option \<Rightarrow> string \<Rightarrow> string" where
  "or_default m fallback =
     (case m of None \<Rightarrow> fallback | Some s \<Rightarrow> if s = [] then fallback else s)"

text \<open>
  What the mutators return: \<open>{ success: true, data }\<close> or \<open>{ success: false, error }\<close>.
  A hook function returns the new world, the new hook state, and \<open>Inr\<close> its result or
  \<open>Inl\<close> an exception that leaves it.
\<close>

datatype 'a result = Success 'a | Failure string

subsection \<open>useTickets\<close>

record tickets_state =
  tickets :: "ticket list"
  loading :: bool
  error :: "string option"

definition fetchTickets :: "world \<Rightarrow> tickets_state \<Rightarrow> ticket list transport \<Rightarrow> world \<times> tickets_state \<times> (ticket list axios_error + unit)" where
  "fetchTickets w s t =
     (let s1 = s\<lparr>loading := True, error := None\<rparr>
      in case ticketService_getAllTickets w t of
           (w', Inr response) \<Rightarrow>
             (w', s1\<lparr>tickets := data response, loading := False\<rparr>, Inr ())
         | (w', Inl err) \<Rightarrow>
             (w', s1\<lparr>error := Some (or_default (error_message err) ''Error al cargar tickets''),
                     loading := False\<rparr>, Inr ()))"

definition createTicket :: "world \<Rightarrow> tickets_state \<Rightarrow> ticket transport \<Rightarrow> world \<times> tickets_state \<times> (ticket axios_error + ticket result)" where
  "createTicket w s t =
     (case ticketService_createTicket w t of
        (w', Inr response) \<Rightarrow>
          (w', s\<lparr>tickets := data response # tickets s\<rparr>, Inr (Success (data response)))
      | (w', Inl err) \<Rightarrow>
          (w', s, Inr (Failure (or_default (error_message err) ''Error al crear ticket''))))"

definition updateTicket :: "world \<Rightarrow> tickets_state \<Rightarrow> ident \<Rightarrow> ticket transport \<Rightarrow> world \<times> tickets_state \<times> (ticket axios_error + ticket result)" where
  "updateTicket w s i t =
     (case ticketService_updateTicket w i t of
        (w', Inr response) \<Rightarrow>
          (w', s\<lparr>tickets := map (\<lambda>ticket. if ticket_id ticket = i then data response else ticket)
                                (tickets s)\<rparr>,
           Inr (Success (data response)))
      | (w', Inl err) \<Rightarrow>
          (w', s, Inr (Failure (or_default (error_message err) ''Error al actualizar ticket''))))"

definition deleteTicket :: "world \<Rightarrow> tickets_state \<Rightarrow> ident \<Rightarrow> unit transport \<Rightarrow> world \<times> tickets_state \<times> (unit axios_error + unit result)" where
  "deleteTicket w s i t =
     (case ticketService_deleteTicket w i t of
        (w', Inr response) \<Rightarrow>
          (w', s\<lparr>tickets := filter (\<lambda>ticket. ticket_id ticket \<noteq> i) (tickets s)\<rparr>,
           Inr (Success ()))
      | (w', Inl err) \<Rightarrow>
          (w', s, Inr (Failure (or_default (error_message err) ''Error al eliminar ticket''))))"

subsection \<open>useAuth\<close>

record account =
  username :: string
  email :: string

record login_payload =
  token :: string
  payload_user :: account

text \<open>The session: \<open>user\<close> is \<open>null\<close> (\<open>None\<close>) or the account object.\<close>

record auth_state =
  user :: "account option"
  auth_loading :: bool

text \<open>\<open>isAuthenticated: !!user\<close>; \<open>null\<close> is falsy, every object is truthy.\<close>

definition isAuthenticated :: "auth_state \<Rightarrow> bool" where
  "isAuthenticated s = (case user s of None \<Rightarrow> False | Some _ \<Rightarrow> True)"

definition login :: "world \<Rightarrow> auth_state \<Rightarrow> login_payload transport \<Rightarrow> world \<times> auth_state \<times> (login_payload axios_error + unit result)" where
  "login w s t =
     (case authService_login w t of
        (w', Inr response) \<Rightarrow>
          (w'\<lparr>localStorage := (localStorage w')(''authToken'' \<mapsto> token (data response))\<rparr>,
           s\<lparr>user := Some (payload_user (data response))\<rparr>,
           Inr (Success ()))
      | (w', Inl err) \<Rightarrow>
          (w', s, Inr (Failure (or_default (error_message err) ''Error en el login''))))"

subsection \<open>useApiHealth\<close>

datatype health = Checking | Healthy | Unhealthy

record health_state =
  backendStatus :: health
  dbStatus :: health

text \<open>
  \<open>checkHealth\<close>: one \<open>try\<close> around both probes, one \<open>catch\<close> that sets both statuses. When
  the first probe fails the second is never sent.
\<close>

definition checkHealth :: "world \<Rightarrow> health_state \<Rightarrow> unit transport \<Rightarrow> unit transport \<Rightarrow> world \<times> health_state \<times> (unit axios_error + unit)" where
  "checkHealth w s tb td =
     (case healthService_checkBackend w tb of
        (w1, Inl err) \<Rightarrow>
          (w1, s\<lparr>backendStatus := Unhealthy, dbStatus := Unhealthy\<rparr>, Inr ())
      | (w1, Inr _) \<Rightarrow>
          (let s1 = s\<lparr>backendStatus := Healthy\<rparr>
           in case healthService_checkDatabase w1 td of
                (w2, Inl err) \<Rightarrow>
                  (w2, s1\<lparr>backendStatus := Unhealthy, dbStatus := Unhealthy\<rparr>, Inr ())
              | (w2, Inr _) \<Rightarrow>
                  (w2, s1\<lparr>dbStatus := Healthy\<rparr>, Inr ())))"

text \<open>A probe succeeds when its call through the client resolves.\<close>

definition succeeds :: "'a transport \<Rightarrow> bool" where
  "succeeds t = (case settle t of Inr _ \<Rightarrow> True | Inl _ \<Rightarrow> False)"


section \<open>The fetch-based revisions (api.js in two versions, and the minimal App)\<close>

text \<open>
  JavaScript strings typed by the user are sequences of UTF-16 code units. URLs, header
  names and environment values stay \<open>string\<close>.
\<close>

type_synonym js_string = "16 word list"

text \<open>
  \<open>String.prototype.trim\<close> removes white space and line terminators from both ends:
  TAB, LF, VT, FF, CR, SP, NBSP, U+1680, U+2000 to U+200A, U+2028, U+2029, U+202F,
  U+205F, U+3000 and U+FEFF.
\<close>

definition is_white_space :: "16 word \<Rightarrow> bool" where
  "is_white_space c =
     (c = 0x9 \<or> c = 0xA \<or> c = 0xB \<or> c = 0xC \<or> c = 0xD \<or> c = 0x20 \<or> c = 0xA0 \<or>
      c = 0x1680 \<or> (0x2000 \<le> c \<and> c \<le> 0x200A) \<or> c = 0x2028 \<or> c = 0x2029 \<or>
      c = 0x202F \<or> c = 0x205F \<or> c = 0x3000 \<or> c = 0xFEFF)"

definition trim :: "js_string \<Rightarrow> js_string" where
  "trim s = rev (dropWhile is_white_space (rev (dropWhile is_white_space s)))"

text \<open>The two build-time variables the revisions read; \<open>None\<close> is \<open>undefined\<close>.\<close>

record env =
  NODE_ENV :: "string option"
  REACT_APP_API_URL :: "string option"

text \<open>
  What is handed to \<open>fetch\<close>; \<open>http_method\<close> is the option the source writes as
  \<open>method:\<close>. A call with a URL alone is a GET without headers or body.
  The body is the text \<open>JSON.stringify\<close> makes of an object with string fields; the
  serialisation is the platform's and is kept symbolic.
\<close>

datatype json_text = JSON_stringify "(string \<times> js_string) list"

record fetch_request =
  url :: string
  http_method :: string
  headers :: "(string \<times> string) list"
  body :: "json_text option"

text \<open>
  What \<open>fetch\<close> followed by \<open>res.json()\<close> can do: \<open>fetch\<close> rejects (no connection), or a
  response arrives, whatever its status, and \<open>res.json()\<close> either parses its body or
  rejects.
\<close>

datatype 'a fetched = Fetch_rejected | Fetch_response "'a option"

datatype fetch_error = Network_failure | Json_syntax_error

definition res_json :: "'a fetched \<Rightarrow> fetch_error + 'a" where
  "res_json f =
     (case f of
        Fetch_rejected \<Rightarrow> Inl Network_failure
      | Fetch_response None \<Rightarrow> Inl Json_syntax_error
      | Fetch_response (Some v) \<Rightarrow> Inr v)"

subsection \<open>api.js, first revision\<close>

definition API_BASE_URL_1 :: "env \<Rightarrow> string" where
  "API_BASE_URL_1 e = or_default (REACT_APP_API_URL e) ''http://localhost:3000''"

definition getTickets_1 :: "env \<Rightarrow> 'a fetched \<Rightarrow> fetch_request \<times> (fetch_error + 'a)" where
  "getTickets_1 e f =
     (\<lparr>url = API_BASE_URL_1 e @ ''/tickets'', http_method = ''GET'', headers = [], body = None\<rparr>,
      res_json f)"

definition createTicket_1 :: "env \<Rightarrow> js_string \<Rightarrow> 'a fetched \<Rightarrow> fetch_request \<times> (fetch_error + 'a)" where
  "createTicket_1 e title' f =
     (\<lparr>url = API_BASE_URL_1 e @ ''/tickets'', http_method = ''POST'',
       headers = [(''Content-Type'', ''application/json'')],
       body = Some (JSON_stringify [(''title'', title')])\<rparr>,
      res_json f)"

subsection \<open>api.js, second revision\<close>

definition API_BASE_URL_2 :: "env \<Rightarrow> string" where
  "API_BASE_URL_2 e =
     (if NODE_ENV e = Some ''production'' then ''/api''
      else or_default (REACT_APP_API_URL e) ''http://localhost:3000'')"

definition getTickets_2 :: "env \<Rightarrow> 'a fetched \<Rightarrow> fetch_request \<times> (fetch_error + 'a)" where
  "getTickets_2 e f =
     (\<lparr>url = API_BASE_URL_2 e @ ''/tickets'', http_method = ''GET'', headers = [], body = None\<rparr>,
      res_json f)"

definition createTicket_2 :: "env \<Rightarrow> js_string \<Rightarrow> 'a fetched \<Rightarrow> fetch_request \<times> (fetch_error + 'a)" where
  "createTicket_2 e title' f =
     (\<lparr>url = API_BASE_URL_2 e @ ''/tickets'', http_method = ''POST'',
       headers = [(''Content-Type'', ''application/json'')],
       body = Some (JSON_stringify [(''title'', title')])\<rparr>,
      res_json f)"

subsection \<open>The minimal App\<close>

text \<open>
  The component imports \<open>getTickets\<close> and \<open>createTicket\<close> from \<open>./api\<close>; they are
  parameters here, so that either revision can be plugged in. Its state is the list as
  \<open>getTickets\<close> returned it and the text of the input. A function of the component returns
  the new state, the requests it made in order, and \<open>Inr\<close> or the exception that leaves
  it.
\<close>

record 'a app_state =
  app_tickets :: 'a
  app_title :: js_string

definition app_fetchTickets :: "('a fetched \<Rightarrow> fetch_request \<times> (fetch_error + 'a)) \<Rightarrow> 'a app_state \<Rightarrow> 'a fetched \<Rightarrow> 'a app_state \<times> fetch_request list \<times> (fetch_error + unit)" where
  "app_fetchTickets getTickets st f =
     (case getTickets f of
        (q, Inr data') \<Rightarrow> (st\<lparr>app_tickets := data'\<rparr>, [q], Inr ())
      | (q, Inl err) \<Rightarrow> (st, [q], Inl err))"

text \<open>
  \<open>handleAdd\<close>: the guard, \<open>await createTicket(title)\<close>, \<open>setTitle("")\<close>, and
  \<open>fetchTickets()\<close> without \<open>await\<close>: the list request is made at once, its result is
  applied when it arrives, and its failure does not reach \<open>handleAdd\<close>'s caller.
\<close>

definition handleAdd :: "(js_string \<Rightarrow> 'b fetched \<Rightarrow> fetch_request \<times> (fetch_error + 'b)) \<Rightarrow> ('a fetched \<Rightarrow> fetch_request \<times> (fetch_error + 'a)) \<Rightarrow> 'a app_state \<Rightarrow> 'b fetched \<Rightarrow> 'a fetched \<Rightarrow> 'a app_state \<times> fetch_request list \<times> (fetch_error + unit)" where
  "handleAdd createTicket' getTickets st fc fg =
     (if trim (app_title st) = [] then (st, [], Inr ())
      else case createTicket' (app_title st) fc of
             (q, Inl err) \<Rightarrow> (st, [q], Inl err)
           | (q, Inr _) \<Rightarrow>
               (case app_fetchTickets getTickets (st\<lparr>app_title := []\<rparr>) fg of
                  (st', qs, _) \<Rightarrow> (st', q # qs, Inr ())))"


section \<open>Sample values\<close>

text \<open>Concrete inputs on which the theorems below are exercised.\<close>

definition world0 :: world where
  "world0 = \<lparr>localStorage = [''authToken'' \<mapsto> ''abc''], location_href = ''/tickets'', sent = []\<rparr>"

definition ticket1 :: ticket where
  "ticket1 = \<lparr>ticket_id = Num 1, title = ''Printer jam'', description = ''Tray 2'',
              priority = ''MEDIUM'', ticket_status = ''OPEN''\<rparr>"

definition ticket2 :: ticket where
  "ticket2 = \<lparr>ticket_id = Num 2, title = ''No network'', description = ''Floor 3'',
              priority = ''HIGH'', ticket_status = ''OPEN''\<rparr>"

definition ticket2' :: ticket where
  "ticket2' = \<lparr>ticket_id = Num 2, title = ''No network'', description = ''Floor 3'',
               priority = ''HIGH'', ticket_status = ''CLOSED''\<rparr>"

definition ticket3 :: ticket where
  "ticket3 = \<lparr>ticket_id = Str ''3'', title = ''New badge'', description = ''Visitor'',
              priority = ''LOW'', ticket_status = ''IN_PROGRESS''\<rparr>"

definition tickets0 :: tickets_state where
  "tickets0 = \<lparr>tickets = [ticket1, ticket2, ticket3], loading = False, error = None\<rparr>"

definition replied :: "int \<Rightarrow> 'a \<Rightarrow> 'a transport" where
  "replied code payload = Received \<lparr>status = code, data = payload, data_message = None\<rparr>"

definition refused :: "int \<Rightarrow> 'a \<Rightarrow> string \<Rightarrow> 'a transport" where
  "refused code payload msg = Received \<lparr>status = code, data = payload, data_message = Some msg\<rparr>"

definition env0 :: env where
  "env0 = \<lparr>NODE_ENV = Some ''development'', REACT_APP_API_URL = None\<rparr>"

definition env1 :: env where
  "env1 = \<lparr>NODE_ENV = Some ''development'',
            REACT_APP_API_URL = Some ''http://backend-service:8080''\<rparr>"

definition env2 :: env where
  "env2 = \<lparr>NODE_ENV = None, REACT_APP_API_URL = Some []\<rparr>"


section \<open>Properties of the client wrapper\<close>

lemma api_request_resolved:
  "settle t = Inr r \<Longrightarrow>
   api_request w m u t =
     (w\<lparr>sent := sent w @ [request_fulfilled w \<lparr>req_method = m, req_url = u, req_authorization = None\<rparr>]\<rparr>,
      Inr r)"
  by (simp add: api_request_def response_fulfilled_def Let_def)

lemma api_request_rejected:
  "settle t = Inl e \<Longrightarrow> snd (api_request w m u t) = Inl e"
  by (simp add: api_request_def response_rejected_def Let_def)

lemma or_default_nonempty: "fallback \<noteq> [] \<Longrightarrow> or_default m fallback \<noteq> []"
  by (simp add: or_default_def split: option.splits)

lemma settle_replied:
  "settle (replied code x) =
     (if 200 \<le> code \<and> code < 300 then Inr \<lparr>status = code, data = x, data_message = None\<rparr>
      else Inl \<lparr>error_response = Some \<lparr>status = code, data = x, data_message = None\<rparr>\<rparr>)"
  by (simp add: settle_def replied_def)

lemma settle_refused:
  "settle (refused code x msg) =
     (if 200 \<le> code \<and> code < 300 then Inr \<lparr>status = code, data = x, data_message = Some msg\<rparr>
      else Inl \<lparr>error_response = Some \<lparr>status = code, data = x, data_message = Some msg\<rparr>\<rparr>)"
  by (simp add: settle_def refused_def)

lemma settle_No_response: "settle No_response = Inl \<lparr>error_response = None\<rparr>"
  by (simp add: settle_def)

text \<open>
  C1. A response with status 401 removes the stored token, sends the browser to the login
  route and is still rejected to the caller with the error that holds this response. A
  response with any other error status, and a request that got no response, leave the
  storage and the location as they were and reject with the error unchanged.
\<close>

theorem unauthorized_clears_token_and_propagates:
  "(status r = 401 \<longrightarrow>
      localStorage (fst (api_request w m u (Received r))) ''authToken'' = None \<and>
      location_href (fst (api_request w m u (Received r))) = ''/login'' \<and>
      snd (api_request w m u (Received r)) = Inl \<lparr>error_response = Some r\<rparr>) \<and>
   (settle t = Inl e \<and> map_option status (error_response e) \<noteq> Some 401 \<longrightarrow>
      localStorage (fst (api_request w m u t)) = localStorage w \<and>
      location_href (fst (api_request w m u t)) = location_href w \<and>
      snd (api_request w m u t) = Inl e)"
  by (auto simp: api_request_def settle_def response_rejected_def Let_def)

theorem unauthorized_clears_token_and_propagates_witness:
  "status \<lparr>status = 401, data = (), data_message = None\<rparr> = 401 \<and>
   localStorage world0 ''authToken'' = Some ''abc'' \<and>
   localStorage (fst (api_request world0 ''GET'' ''/api/tickets''
       (Received \<lparr>status = 401, data = (), data_message = None\<rparr>))) ''authToken'' = None \<and>
   location_href (fst (api_request world0 ''GET'' ''/api/tickets''
       (Received \<lparr>status = 401, data = (), data_message = None\<rparr>))) = ''/login'' \<and>
   snd (api_request world0 ''GET'' ''/api/tickets''
       (Received \<lparr>status = 401, data = (), data_message = None\<rparr>))
     = Inl \<lparr>error_response = Some \<lparr>status = 401, data = (), data_message = None\<rparr>\<rparr> \<and>
   settle (replied 500 ())
     = Inl \<lparr>error_response = Some \<lparr>status = 500, data = (), data_message = None\<rparr>\<rparr> \<and>
   localStorage (fst (api_request world0 ''GET'' ''/api/tickets'' (replied 500 ()))) ''authToken''
     = Some ''abc'' \<and>
   location_href (fst (api_request world0 ''GET'' ''/api/tickets'' (replied 500 ()))) = ''/tickets'' \<and>
   snd (api_request world0 ''GET'' ''/api/tickets'' (replied 500 ()))
     = Inl \<lparr>error_response = Some \<lparr>status = 500, data = (), data_message = None\<rparr>\<rparr>"
  using unauthorized_clears_token_and_propagates
    [of "\<lparr>status = 401, data = (), data_message = None\<rparr>" world0
        "''GET''" "''/api/tickets''" "replied 500 ()"
        "\<lparr>error_response = Some \<lparr>status = 500, data = (), data_message = None\<rparr>\<rparr>"]
  by (simp add: settle_replied world0_def)

text \<open>
  C8. \<open>authService.logout\<close> of the minimal revision removes the stored token, leaves every
  other item and the location alone, hands no request to the network and returns a
  resolved promise.
\<close>

theorem logout_clears_token_without_request:
  "localStorage (fst (authService_logout w)) = (localStorage w)(''authToken'' := None) \<and>
   localStorage (fst (authService_logout w)) ''authToken'' = None \<and>
   sent (fst (authService_logout w)) = sent w \<and>
   location_href (fst (authService_logout w)) = location_href w \<and>
   snd (authService_logout w) = Inr ()"
  by (simp add: authService_logout_def)


section \<open>Identifiers in request URLs\<close>

text \<open>
  Small identifiers are printed digit by digit, a negative one with its sign, a string
  unchanged; \<open>10 ^ 21\<close> is the first number printed in exponent form.
\<close>

lemma to_string_examples:
  "to_string (Num 42) = ''42'' \<and> to_string (Num (- 7)) = ''-7'' \<and> to_string (Str ''a1'') = ''a1''"
  by (simp add: to_string_def Number_toString_def bit_length.simps decimal.simps)

lemma bit_length_1e21: "bit_length 1000000000000000000000 = 70"
  by (simp add: bit_length.simps)

lemma bit_length_1e22: "bit_length 10000000000000000000000 = 74"
  by (simp add: bit_length.simps)

lemma to_double_1e21: "to_double 1000000000000000000000 = 1000000000000000000000"
  by (simp add: to_double_def bit_length_1e21 Let_def)

lemma to_double_1e22: "to_double 10000000000000000000000 = 10000000000000000000000"
  by (simp add: to_double_def bit_length_1e22 Let_def)

lemma length_decimal_1e21: "length (decimal 1000000000000000000000) = 22"
  by (simp add: decimal.simps)

lemma digits_at_1e21: "digits_at 1000000000000000000000 21 = Some 1"
  by (simp add: digits_at_def to_double_1e21 Let_def)

lemma shortest_1e21: "shortest 1000000000000000000000 = (1, 22)"
  by (simp add: shortest_def length_decimal_1e21 to_double_1e22 search.simps digits_at_1e21 Let_def)

lemma to_string_1e21: "to_string (Num 1000000000000000000000) = ''1e+21''"
  by (simp add: to_string_def Number_toString_def bit_length_1e21 to_double_1e21 shortest_1e21
        decimal.simps Let_def)

lemma update_url_example:
  "req_url (last (sent (fst (ticketService_updateTicket world0 (Num 1000000000000000000000)
       (replied 200 ticket1))))) = ''/api/tickets/1e+21''"
  by (simp add: ticketService_updateTicket_def api_request_resolved settle_replied to_string_1e21
        request_fulfilled_def world0_def)


section \<open>Properties of the ticket list hook\<close>

lemma createTicket_rejected:
  "settle t = Inl e \<Longrightarrow>
   snd (createTicket w s t) =
     (s, Inr (Failure (or_default (error_message e) ''Error al crear ticket'')))"
  by (simp add: createTicket_def ticketService_createTicket_def api_request_def
        response_rejected_def Let_def)

lemma updateTicket_rejected:
  "settle t = Inl e \<Longrightarrow>
   snd (updateTicket w s i t) =
     (s, Inr (Failure (or_default (error_message e) ''Error al actualizar ticket'')))"
  by (simp add: updateTicket_def ticketService_updateTicket_def api_request_def
        response_rejected_def Let_def)

lemma deleteTicket_rejected:
  "settle t = Inl e \<Longrightarrow>
   snd (deleteTicket w s i t) =
     (s, Inr (Failure (or_default (error_message e) ''Error al eliminar ticket'')))"
  by (simp add: deleteTicket_def ticketService_deleteTicket_def api_request_def
        response_rejected_def Let_def)

text \<open>
  Only \<open>fetchTickets\<close> writes the hook's \<open>error\<close> state: a failed list request stores the
  message there and returns normally.
\<close>

lemma fetchTickets_rejected:
  "settle t = Inl e \<Longrightarrow>
   snd (fetchTickets w s t) =
     (s\<lparr>loading := False, error := Some (or_default (error_message e) ''Error al cargar tickets'')\<rparr>,
      Inr ())"
  by (simp add: fetchTickets_def ticketService_getAllTickets_def api_request_def
        response_rejected_def Let_def)

text \<open>
  C2, as the claim states it, fails: a create call whose request gets no response returns
  the failure to its caller, and the hook's \<open>error\<close> state, empty before, is empty after.
\<close>

theorem failed_create_leaves_error_state_empty:
  "settle (No_response :: ticket transport) = Inl \<lparr>error_response = None\<rparr> \<and>
   error tickets0 = None \<and>
   error (fst (snd (createTicket world0 tickets0 No_response))) = None \<and>
   snd (snd (createTicket world0 tickets0 No_response)) = Inr (Failure ''Error al crear ticket'')"
  by (simp add: createTicket_rejected [OF settle_No_response] settle_No_response tickets0_def
        or_default_def error_message_def)

text \<open>
  C2, amended. A failing create, update or delete call does not throw: it returns
  \<open>{ success: false, error }\<close>, where the error is the server's message when there is a
  non-empty one and the mutator's own fixed text otherwise, so never the empty string.
  The hook state, its \<open>error\<close> field included, is left as it was.
\<close>

theorem mutators_return_failure_message:
  "(settle t = Inl e \<longrightarrow>
      fst (snd (createTicket w s t)) = s \<and>
      snd (snd (createTicket w s t))
        = Inr (Failure (or_default (error_message e) ''Error al crear ticket'')) \<and>
      or_default (error_message e) ''Error al crear ticket'' \<noteq> [] \<and>
      fst (snd (updateTicket w s i t)) = s \<and>
      snd (snd (updateTicket w s i t))
        = Inr (Failure (or_default (error_message e) ''Error al actualizar ticket'')) \<and>
      or_default (error_message e) ''Error al actualizar ticket'' \<noteq> []) \<and>
   (settle t' = Inl e' \<longrightarrow>
      fst (snd (deleteTicket w s i t')) = s \<and>
      snd (snd (deleteTicket w s i t'))
        = Inr (Failure (or_default (error_message e') ''Error al eliminar ticket'')) \<and>
      or_default (error_message e') ''Error al eliminar ticket'' \<noteq> [])"
  by (simp add: createTicket_rejected updateTicket_rejected deleteTicket_rejected
        or_default_nonempty)

theorem mutators_return_failure_message_witness:
  "settle (refused 422 ticket1 ''Title is required'')
     = Inl \<lparr>error_response = Some \<lparr>status = 422, data = ticket1,
                                     data_message = Some ''Title is required''\<rparr>\<rparr> \<and>
   fst (snd (createTicket world0 tickets0 (refused 422 ticket1 ''Title is required''))) = tickets0 \<and>
   snd (snd (createTicket world0 tickets0 (refused 422 ticket1 ''Title is required'')))
     = Inr (Failure ''Title is required'') \<and>
   snd (snd (updateTicket world0 tickets0 (Num 2) (refused 422 ticket1 ''Title is required'')))
     = Inr (Failure ''Title is required'') \<and>
   settle (No_response :: unit transport) = Inl \<lparr>error_response = None\<rparr> \<and>
   fst (snd (deleteTicket world0 tickets0 (Num 2) No_response)) = tickets0 \<and>
   snd (snd (deleteTicket world0 tickets0 (Num 2) No_response))
     = Inr (Failure ''Error al eliminar ticket'')"
  using mutators_return_failure_message
    [of "refused 422 ticket1 ''Title is required''"
        "\<lparr>error_response = Some \<lparr>status = 422, data = ticket1,
                                  data_message = Some ''Title is required''\<rparr>\<rparr>"
        world0 tickets0 "Num 2" No_response "\<lparr>error_response = None\<rparr>"]
  by (simp add: settle_refused settle_No_response or_default_def error_message_def)

text \<open>
  C5. A create call whose request resolves puts the record the server returned in front
  of the prior list, which follows unchanged, and returns it as the result's data. The
  call hands exactly one request to the network, the POST to \<open>/api/tickets\<close>: the list is
  not fetched again.
\<close>

theorem createTicket_prepends_without_refetch:
  "settle t = Inr r \<Longrightarrow>
   tickets (fst (snd (createTicket w s t))) = data r # tickets s \<and>
   sent (fst (createTicket w s t)) =
     sent w @ [request_fulfilled w
                 \<lparr>req_method = ''POST'', req_url = ''/api/tickets'', req_authorization = None\<rparr>] \<and>
   snd (snd (createTicket w s t)) = Inr (Success (data r))"
  by (simp add: createTicket_def ticketService_createTicket_def api_request_resolved)

theorem createTicket_prepends_without_refetch_witness:
  "settle (replied 201 ticket2') = Inr \<lparr>status = 201, data = ticket2', data_message = None\<rparr> \<and>
   tickets (fst (snd (createTicket world0 tickets0 (replied 201 ticket2'))))
     = [ticket2', ticket1, ticket2, ticket3] \<and>
   sent (fst (createTicket world0 tickets0 (replied 201 ticket2')))
     = [\<lparr>req_method = ''POST'', req_url = ''/api/tickets'',
         req_authorization = Some ''Bearer abc''\<rparr>]"
  using createTicket_prepends_without_refetch
    [of "replied 201 ticket2'" "\<lparr>status = 201, data = ticket2', data_message = None\<rparr>"
        world0 tickets0]
  by (simp add: settle_replied tickets0_def world0_def request_fulfilled_def)

text \<open>
  C6. An update call with identifier \<open>i\<close> whose request resolves keeps the length of the
  list, and at every position the new list holds the server's record where the old
  record's identifier is \<open>i\<close> and the old record where it is not.
\<close>

theorem updateTicket_replaces_matching:
  "settle t = Inr r \<Longrightarrow>
   length (tickets (fst (snd (updateTicket w s i t)))) = length (tickets s) \<and>
   (k < length (tickets s) \<longrightarrow>
      tickets (fst (snd (updateTicket w s i t))) ! k =
        (if ticket_id (tickets s ! k) = i then data r else tickets s ! k)) \<and>
   snd (snd (updateTicket w s i t)) = Inr (Success (data r))"
  by (simp add: updateTicket_def ticketService_updateTicket_def api_request_resolved)

theorem updateTicket_replaces_matching_witness:
  "settle (replied 200 ticket2') = Inr \<lparr>status = 200, data = ticket2', data_message = None\<rparr> \<and>
   (1::nat) < length (tickets tickets0) \<and>
   ticket_id (tickets tickets0 ! 1) = Num 2 \<and>
   length (tickets (fst (snd (updateTicket world0 tickets0 (Num 2) (replied 200 ticket2'))))) = 3 \<and>
   tickets (fst (snd (updateTicket world0 tickets0 (Num 2) (replied 200 ticket2')))) ! 1 = ticket2'"
  using updateTicket_replaces_matching
    [of "replied 200 ticket2'" "\<lparr>status = 200, data = ticket2', data_message = None\<rparr>"
        world0 tickets0 "Num 2" 1]
  by (simp add: settle_replied tickets0_def ticket2_def)

lemma count_list_filter:
  "count_list (filter P xs) x = (if P x then count_list xs x else 0)"
  by (induction xs) auto

lemma deleteTicket_resolved:
  "settle t = Inr r \<Longrightarrow>
   tickets (fst (snd (deleteTicket w s i t))) = filter (\<lambda>x. ticket_id x \<noteq> i) (tickets s)"
  by (simp add: deleteTicket_def ticketService_deleteTicket_def api_request_resolved)

text \<open>
  C7. A delete call with identifier \<open>i\<close> whose request resolves leaves a subsequence of
  the old list (the order of what remains is kept) in which no record with identifier \<open>i\<close>
  occurs and every other record occurs as often as before. When the old list holds
  exactly one record with identifier \<open>i\<close>, the new list is the old one without it.
\<close>

theorem deleteTicket_removes_matching:
  "settle t = Inr r \<Longrightarrow>
   subseq (tickets (fst (snd (deleteTicket w s i t)))) (tickets s) \<and>
   (\<forall>x. count_list (tickets (fst (snd (deleteTicket w s i t)))) x =
      (if ticket_id x = i then 0 else count_list (tickets s) x)) \<and>
   (tickets s = xs @ x # ys \<and> ticket_id x = i \<and>
    (\<forall>y \<in> set xs \<union> set ys. ticket_id y \<noteq> i) \<longrightarrow>
      tickets (fst (snd (deleteTicket w s i t))) = xs @ ys) \<and>
   snd (snd (deleteTicket w s i t)) = Inr (Success ())"
proof -
  assume ok: "settle t = Inr r"
  let ?new = "tickets (fst (snd (deleteTicket w s i t)))"
  have eq: "?new = filter (\<lambda>x. ticket_id x \<noteq> i) (tickets s)"
    using ok by (rule deleteTicket_resolved)
  have sub: "subseq ?new (tickets s)"
    unfolding eq by (rule subseq_filter_left)
  have cnt: "\<forall>x. count_list ?new x = (if ticket_id x = i then 0 else count_list (tickets s) x)"
    unfolding eq by (simp add: count_list_filter)
  have one: "tickets s = xs @ x # ys \<and> ticket_id x = i \<and>
      (\<forall>y \<in> set xs \<union> set ys. ticket_id y \<noteq> i) \<longrightarrow> ?new = xs @ ys"
    unfolding eq by (auto simp: filter_id_conv)
  have res: "snd (snd (deleteTicket w s i t)) = Inr (Success ())"
    using ok by (simp add: deleteTicket_def ticketService_deleteTicket_def api_request_resolved)
  from sub cnt one res show ?thesis by blast
qed

theorem deleteTicket_removes_matching_witness:
  "settle (replied 204 ()) = Inr \<lparr>status = 204, data = (), data_message = None\<rparr> \<and>
   tickets tickets0 = [ticket1] @ ticket2 # [ticket3] \<and>
   ticket_id ticket2 = Num 2 \<and>
   ticket_id ticket1 \<noteq> Num 2 \<and>
   ticket_id ticket3 \<noteq> Num 2 \<and>
   tickets (fst (snd (deleteTicket world0 tickets0 (Num 2) (replied 204 ())))) = [ticket1, ticket3]"
  using deleteTicket_removes_matching
    [of "replied 204 ()" "\<lparr>status = 204, data = (), data_message = None\<rparr>"
        world0 tickets0 "Num 2" "[ticket1]" ticket2 "[ticket3]"]
  by (simp add: settle_replied tickets0_def ticket1_def ticket2_def ticket3_def)


section \<open>Properties of the session hook\<close>

text \<open>
  C4. A login whose request resolves with \<open>{ token, user }\<close> stores the token under
  \<open>authToken\<close>, sets the session user, so that \<open>isAuthenticated\<close> holds, and returns success.
  A login whose request is rejected stores no token (the item is as before, or removed by
  the 401 handler), leaves the session as it was, so an anonymous session stays
  anonymous, and returns a failure with a non-empty message.
\<close>

theorem login_outcomes:
  "(settle t = Inr r \<longrightarrow>
      localStorage (fst (login w s t)) ''authToken'' = Some (token (data r)) \<and>
      user (fst (snd (login w s t))) = Some (payload_user (data r)) \<and>
      isAuthenticated (fst (snd (login w s t))) \<and>
      snd (snd (login w s t)) = Inr (Success ())) \<and>
   (settle t = Inl e \<longrightarrow>
      (localStorage (fst (login w s t)) ''authToken'' = localStorage w ''authToken'' \<or>
       localStorage (fst (login w s t)) ''authToken'' = None) \<and>
      fst (snd (login w s t)) = s \<and>
      isAuthenticated (fst (snd (login w s t))) = isAuthenticated s \<and>
      snd (snd (login w s t)) = Inr (Failure (or_default (error_message e) ''Error en el login'')) \<and>
      or_default (error_message e) ''Error en el login'' \<noteq> [])"
  by (cases "settle t")
     (simp_all add: login_def authService_login_def isAuthenticated_def
        api_request_def response_rejected_def response_fulfilled_def Let_def or_default_nonempty)

theorem login_outcomes_witness:
  "settle (replied 200 \<lparr>token = ''t0k'', payload_user = \<lparr>username = ''ana'', email = ''ana@example.org''\<rparr>\<rparr>)
     = Inr \<lparr>status = 200,
            data = \<lparr>token = ''t0k'', payload_user = \<lparr>username = ''ana'', email = ''ana@example.org''\<rparr>\<rparr>,
            data_message = None\<rparr> \<and>
   localStorage (fst (login \<lparr>localStorage = Map.empty, location_href = ''/login'', sent = []\<rparr>
       \<lparr>user = None, auth_loading = False\<rparr>
       (replied 200 \<lparr>token = ''t0k'', payload_user = \<lparr>username = ''ana'', email = ''ana@example.org''\<rparr>\<rparr>)))
     ''authToken'' = Some ''t0k'' \<and>
   isAuthenticated (fst (snd (login \<lparr>localStorage = Map.empty, location_href = ''/login'', sent = []\<rparr>
       \<lparr>user = None, auth_loading = False\<rparr>
       (replied 200 \<lparr>token = ''t0k'', payload_user = \<lparr>username = ''ana'', email = ''ana@example.org''\<rparr>\<rparr>)))) \<and>
   settle (refused 401 \<lparr>token = [], payload_user = \<lparr>username = [], email = []\<rparr>\<rparr> ''Bad credentials'')
     = Inl \<lparr>error_response = Some \<lparr>status = 401,
            data = \<lparr>token = [], payload_user = \<lparr>username = [], email = []\<rparr>\<rparr>,
            data_message = Some ''Bad credentials''\<rparr>\<rparr> \<and>
   localStorage (fst (login \<lparr>localStorage = Map.empty, location_href = ''/login'', sent = []\<rparr>
       \<lparr>user = None, auth_loading = False\<rparr>
       (refused 401 \<lparr>token = [], payload_user = \<lparr>username = [], email = []\<rparr>\<rparr> ''Bad credentials'')))
     ''authToken'' = None \<and>
   \<not> isAuthenticated (fst (snd (login \<lparr>localStorage = Map.empty, location_href = ''/login'', sent = []\<rparr>
       \<lparr>user = None, auth_loading = False\<rparr>
       (refused 401 \<lparr>token = [], payload_user = \<lparr>username = [], email = []\<rparr>\<rparr> ''Bad credentials'')))) \<and>
   snd (snd (login \<lparr>localStorage = Map.empty, location_href = ''/login'', sent = []\<rparr>
       \<lparr>user = None, auth_loading = False\<rparr>
       (refused 401 \<lparr>token = [], payload_user = \<lparr>username = [], email = []\<rparr>\<rparr> ''Bad credentials'')))
     = Inr (Failure ''Bad credentials'')"
  using login_outcomes
    [of "replied 200 \<lparr>token = ''t0k'', payload_user = \<lparr>username = ''ana'', email = ''ana@example.org''\<rparr>\<rparr>"
        "\<lparr>status = 200,
            data = \<lparr>token = ''t0k'', payload_user = \<lparr>username = ''ana'', email = ''ana@example.org''\<rparr>\<rparr>,
            data_message = None\<rparr>"
        "\<lparr>localStorage = Map.empty, location_href = ''/login'', sent = []\<rparr>"
        "\<lparr>user = None, auth_loading = False\<rparr>"]
    login_outcomes
    [of "refused 401 \<lparr>token = [], payload_user = \<lparr>username = [], email = []\<rparr>\<rparr> ''Bad credentials''"
        _
        "\<lparr>localStorage = Map.empty, location_href = ''/login'', sent = []\<rparr>"
        "\<lparr>user = None, auth_loading = False\<rparr>"
        "\<lparr>error_response = Some \<lparr>status = 401,
            data = \<lparr>token = [], payload_user = \<lparr>username = [], email = []\<rparr>\<rparr>,
            data_message = Some ''Bad credentials''\<rparr>\<rparr>"]
  by (simp add: settle_replied settle_refused or_default_def error_message_def isAuthenticated_def)


section \<open>Properties of the health hook\<close>

text \<open>
  C3, as the claim states it, fails: when the backend probe succeeds and the database
  probe gets no response, the backend status ends as unhealthy.
\<close>

theorem checkHealth_backend_ok_reported_unhealthy:
  "succeeds (replied 200 ()) \<and>
   \<not> succeeds (No_response :: unit transport) \<and>
   backendStatus (fst (snd (checkHealth world0 \<lparr>backendStatus = Checking, dbStatus = Checking\<rparr>
       (replied 200 ()) No_response))) = Unhealthy"
  by (simp add: succeeds_def settle_replied settle_No_response checkHealth_def
        healthService_checkBackend_def healthService_checkDatabase_def
        api_request_resolved api_request_def response_rejected_def Let_def)

text \<open>
  C3, amended. A run of the health check never throws. It sets both statuses to healthy
  when the backend probe and the database probe both succeed, and both to unhealthy
  otherwise.
\<close>

theorem checkHealth_both_or_neither:
  "(succeeds tb \<and> succeeds td \<longrightarrow>
      backendStatus (fst (snd (checkHealth w s tb td))) = Healthy \<and>
      dbStatus (fst (snd (checkHealth w s tb td))) = Healthy) \<and>
   (\<not> (succeeds tb \<and> succeeds td) \<longrightarrow>
      backendStatus (fst (snd (checkHealth w s tb td))) = Unhealthy \<and>
      dbStatus (fst (snd (checkHealth w s tb td))) = Unhealthy) \<and>
   snd (snd (checkHealth w s tb td)) = Inr ()"
  by (cases "settle tb"; cases "settle td")
     (simp_all add: checkHealth_def healthService_checkBackend_def healthService_checkDatabase_def
        succeeds_def api_request_def response_rejected_def response_fulfilled_def Let_def)

theorem checkHealth_both_or_neither_witness:
  "succeeds (replied 200 ()) \<and>
   backendStatus (fst (snd (checkHealth world0 \<lparr>backendStatus = Checking, dbStatus = Checking\<rparr>
       (replied 200 ()) (replied 200 ())))) = Healthy \<and>
   dbStatus (fst (snd (checkHealth world0 \<lparr>backendStatus = Checking, dbStatus = Checking\<rparr>
       (replied 200 ()) (replied 200 ())))) = Healthy \<and>
   \<not> (succeeds (replied 503 ()) \<and> succeeds (replied 200 ())) \<and>
   backendStatus (fst (snd (checkHealth world0 \<lparr>backendStatus = Checking, dbStatus = Checking\<rparr>
       (replied 503 ()) (replied 200 ())))) = Unhealthy \<and>
   dbStatus (fst (snd (checkHealth world0 \<lparr>backendStatus = Checking, dbStatus = Checking\<rparr>
       (replied 503 ()) (replied 200 ())))) = Unhealthy"
  using checkHealth_both_or_neither
    [of "replied 200 ()" "replied 200 ()" world0 "\<lparr>backendStatus = Checking, dbStatus = Checking\<rparr>"]
    checkHealth_both_or_neither
    [of "replied 503 ()" "replied 200 ()" world0 "\<lparr>backendStatus = Checking, dbStatus = Checking\<rparr>"]
  by (simp add: succeeds_def settle_replied)


section \<open>Properties of the fetch-based revisions\<close>

lemma trim_letter: "trim [0x61] = [0x61]"
  by (simp add: trim_def is_white_space_def)

lemma trim_blank: "trim [0x20, 0x9, 0x3000] = []"
  by (simp add: trim_def is_white_space_def)

text \<open>
  C9. Outside production the two revisions of \<open>api.js\<close> agree: the base URL is the same,
  \<open>getTickets\<close> and \<open>createTicket\<close> return the same request and the same result on every
  title and every answer of the network. The base URL is the value of
  \<open>REACT_APP_API_URL\<close> when the variable is set to a non-empty string and
  \<open>http://localhost:3000\<close> when it is unset or empty. The request is a GET of the base URL
  followed by \<open>/tickets\<close>, without headers or body, or a POST there with the JSON content
  type and the serialised title. The result is the parsed body of the response; a
  rejected \<open>fetch\<close> and a body that does not parse are rejections.
\<close>

theorem api_revisions_agree_outside_production:
  "NODE_ENV e \<noteq> Some ''production'' \<Longrightarrow>
   API_BASE_URL_1 e = API_BASE_URL_2 e \<and>
   API_BASE_URL_2 e =
     (case REACT_APP_API_URL e of
        None \<Rightarrow> ''http://localhost:3000''
      | Some u \<Rightarrow> if u = [] then ''http://localhost:3000'' else u) \<and>
   getTickets_1 e f = getTickets_2 e f \<and>
   createTicket_1 e t g = createTicket_2 e t g \<and>
   fst (getTickets_2 e f) =
     \<lparr>url = (case REACT_APP_API_URL e of
               None \<Rightarrow> ''http://localhost:3000''
             | Some u \<Rightarrow> if u = [] then ''http://localhost:3000'' else u) @ ''/tickets'',
      http_method = ''GET'', headers = [], body = None\<rparr> \<and>
   fst (createTicket_2 e t g) =
     \<lparr>url = (case REACT_APP_API_URL e of
               None \<Rightarrow> ''http://localhost:3000''
             | Some u \<Rightarrow> if u = [] then ''http://localhost:3000'' else u) @ ''/tickets'',
      http_method = ''POST'', headers = [(''Content-Type'', ''application/json'')],
      body = Some (JSON_stringify [(''title'', t)])\<rparr> \<and>
   snd (getTickets_2 e f) =
     (case f of
        Fetch_rejected \<Rightarrow> Inl Network_failure
      | Fetch_response None \<Rightarrow> Inl Json_syntax_error
      | Fetch_response (Some v) \<Rightarrow> Inr v) \<and>
   snd (createTicket_2 e t g) =
     (case g of
        Fetch_rejected \<Rightarrow> Inl Network_failure
      | Fetch_response None \<Rightarrow> Inl Json_syntax_error
      | Fetch_response (Some v) \<Rightarrow> Inr v)"
  by (simp add: API_BASE_URL_1_def API_BASE_URL_2_def getTickets_1_def getTickets_2_def
        createTicket_1_def createTicket_2_def or_default_def res_json_def)

theorem api_revisions_agree_outside_production_witness:
  "NODE_ENV env0 \<noteq> Some ''production'' \<and>
   REACT_APP_API_URL env0 = None \<and>
   createTicket_1 env0 [0x61] (Fetch_response (Some ticket1))
     = (\<lparr>url = ''http://localhost:3000/tickets'', http_method = ''POST'',
         headers = [(''Content-Type'', ''application/json'')],
         body = Some (JSON_stringify [(''title'', [0x61])])\<rparr>,
        Inr ticket1) \<and>
   getTickets_1 env0 (Fetch_response (Some [ticket1]))
     = (\<lparr>url = ''http://localhost:3000/tickets'', http_method = ''GET'', headers = [], body = None\<rparr>,
        Inr [ticket1]) \<and>
   NODE_ENV env1 \<noteq> Some ''production'' \<and>
   REACT_APP_API_URL env1 = Some ''http://backend-service:8080'' \<and>
   createTicket_1 env1 [0x61] (Fetch_response (Some ticket1))
     = (\<lparr>url = ''http://backend-service:8080/tickets'', http_method = ''POST'',
         headers = [(''Content-Type'', ''application/json'')],
         body = Some (JSON_stringify [(''title'', [0x61])])\<rparr>,
        Inr ticket1) \<and>
   getTickets_1 env1 (Fetch_response (Some [ticket1]))
     = (\<lparr>url = ''http://backend-service:8080/tickets'', http_method = ''GET'', headers = [],
         body = None\<rparr>,
        Inr [ticket1]) \<and>
   getTickets_2 env1 (Fetch_response (Some [ticket1]))
     = getTickets_1 env1 (Fetch_response (Some [ticket1])) \<and>
   NODE_ENV env2 \<noteq> Some ''production'' \<and>
   REACT_APP_API_URL env2 = Some [] \<and>
   getTickets_1 env2 (Fetch_rejected :: ticket list fetched)
     = (\<lparr>url = ''http://localhost:3000/tickets'', http_method = ''GET'', headers = [], body = None\<rparr>,
        Inl Network_failure)"
  using api_revisions_agree_outside_production
    [of env0 "Fetch_response (Some [ticket1])" "[0x61]" "Fetch_response (Some ticket1)"]
    api_revisions_agree_outside_production
    [of env1 "Fetch_response (Some [ticket1])" "[0x61]" "Fetch_response (Some ticket1)"]
    api_revisions_agree_outside_production
    [of env2 "Fetch_rejected :: ticket list fetched" "[0x61]" "Fetch_response (Some ticket1)"]
  by (simp add: env0_def env1_def env2_def prod_eq_iff)

text \<open>In production the revisions differ: the second asks the same origin under \<open>/api\<close>.\<close>

lemma api_revisions_differ_in_production:
  "fst (getTickets_1 \<lparr>NODE_ENV = Some ''production'', REACT_APP_API_URL = None\<rparr> f)
     \<noteq> fst (getTickets_2 \<lparr>NODE_ENV = Some ''production'', REACT_APP_API_URL = None\<rparr> f)"
  by (simp add: API_BASE_URL_1_def API_BASE_URL_2_def getTickets_1_def getTickets_2_def
        or_default_def)

text \<open>
  C10, as the claim states it, fails: with a title that is not blank and a create request
  that is rejected, \<open>handleAdd\<close> rejects, the title is not reset and the list is not
  fetched.
\<close>

theorem handleAdd_failed_create_keeps_title:
  "trim [0x61] \<noteq> [] \<and>
   handleAdd (createTicket_1 env0) (getTickets_1 env0)
             \<lparr>app_tickets = [ticket1], app_title = [0x61]\<rparr>
             (Fetch_rejected :: ticket fetched) (Fetch_response (Some [ticket2, ticket1]))
   = (\<lparr>app_tickets = [ticket1], app_title = [0x61]\<rparr>,
      [\<lparr>url = ''http://localhost:3000/tickets'', http_method = ''POST'',
        headers = [(''Content-Type'', ''application/json'')],
        body = Some (JSON_stringify [(''title'', [0x61])])\<rparr>],
      Inl Network_failure)"
  by (simp add: handleAdd_def trim_letter createTicket_1_def API_BASE_URL_1_def env0_def
        or_default_def res_json_def)

text \<open>
  C10, amended. With a title whose trimmed form is empty, \<open>handleAdd\<close> returns without any
  request and leaves the list and the title as they were. With any other title it makes
  the create request; when that request resolves, it resets the title to the empty
  string and makes the list request, whose result, when there is one, becomes the list;
  when the create request is rejected, \<open>handleAdd\<close> rejects with that error, having
  changed nothing and made no list request.
\<close>

theorem handleAdd_outcomes:
  "(trim (app_title st) = [] \<longrightarrow> handleAdd c g st fc fg = (st, [], Inr ())) \<and>
   (trim (app_title st) \<noteq> [] \<and> snd (c (app_title st) fc) = Inr v \<longrightarrow>
      app_title (fst (handleAdd c g st fc fg)) = [] \<and>
      app_tickets (fst (handleAdd c g st fc fg))
        = (case snd (g fg) of Inr d \<Rightarrow> d | Inl _ \<Rightarrow> app_tickets st) \<and>
      fst (snd (handleAdd c g st fc fg)) = [fst (c (app_title st) fc), fst (g fg)] \<and>
      snd (snd (handleAdd c g st fc fg)) = Inr ()) \<and>
   (trim (app_title st) \<noteq> [] \<and> snd (c (app_title st) fc) = Inl err \<longrightarrow>
      handleAdd c g st fc fg = (st, [fst (c (app_title st) fc)], Inl err))"
  by (cases "c (app_title st) fc"; cases "g fg")
     (auto simp: handleAdd_def app_fetchTickets_def split: sum.splits)

theorem handleAdd_outcomes_witness:
  "trim [0x20, 0x9, 0x3000] = [] \<and>
   handleAdd (createTicket_1 env0) (getTickets_1 env0)
             \<lparr>app_tickets = [ticket1], app_title = [0x20, 0x9, 0x3000]\<rparr>
             (Fetch_response (Some ticket2)) (Fetch_response (Some [ticket2, ticket1]))
     = (\<lparr>app_tickets = [ticket1], app_title = [0x20, 0x9, 0x3000]\<rparr>, [], Inr ()) \<and>
   trim [0x61] \<noteq> [] \<and>
   snd (createTicket_1 env0 [0x61] (Fetch_response (Some ticket2))) = Inr ticket2 \<and>
   app_title (fst (handleAdd (createTicket_1 env0) (getTickets_1 env0)
             \<lparr>app_tickets = [ticket1], app_title = [0x61]\<rparr>
             (Fetch_response (Some ticket2)) (Fetch_response (Some [ticket2, ticket1])))) = [] \<and>
   app_tickets (fst (handleAdd (createTicket_1 env0) (getTickets_1 env0)
             \<lparr>app_tickets = [ticket1], app_title = [0x61]\<rparr>
             (Fetch_response (Some ticket2)) (Fetch_response (Some [ticket2, ticket1]))))
     = [ticket2, ticket1] \<and>
   map http_method (fst (snd (handleAdd (createTicket_1 env0) (getTickets_1 env0)
             \<lparr>app_tickets = [ticket1], app_title = [0x61]\<rparr>
             (Fetch_response (Some ticket2)) (Fetch_response (Some [ticket2, ticket1])))))
     = [''POST'', ''GET'']"
  using handleAdd_outcomes
    [of "\<lparr>app_tickets = [ticket1], app_title = [0x20, 0x9, 0x3000]\<rparr>"
        "createTicket_1 env0" "getTickets_1 env0"
        "Fetch_response (Some ticket2)" "Fetch_response (Some [ticket2, ticket1])"]
    handleAdd_outcomes
    [of "\<lparr>app_tickets = [ticket1], app_title = [0x61]\<rparr>"
        "createTicket_1 env0" "getTickets_1 env0"
        "Fetch_response (Some ticket2)" "Fetch_response (Some [ticket2, ticket1])" ticket2]
  by (simp add: trim_letter trim_blank createTicket_1_def getTickets_1_def res_json_def)
end
